theory Spec2Isabelle
  imports Main
begin

section \<open>Errors\<close>

text \<open>
  The Python exceptions the modelled functions can raise. A failed \<open>assert\<close> raises
  \<open>AssertionError\<close>, a missing dictionary key \<open>KeyError\<close>, and iterating over a
  value that is not iterable \<open>TypeError\<close>.
\<close>

datatype error = AssertionError | KeyError | TypeError

section \<open>Size arithmetic\<close>

text \<open>
  Sizes and strides are sympy expressions. The functions of this section only multiply
  them and compare them, and sympy's products form a monoid with unit \<open>Integer(1)\<close>
  (a product is flattened on construction), so a size is an element of an arbitrary
  multiplicative monoid; the concrete evaluations below take integers.
\<close>

definition product_seq :: "'a::monoid_mult list \<Rightarrow> 'a" where
  \<comment> \<open>Modelled from the spec: \<open>product\<close> of \<open>codegen/common.py\<close>, which is not among the
      sources. The spec speaks of the "prefix product" and the "suffix product" of a size
      list: the product of the elements from left to right, 1 for the empty list.\<close>
  "product_seq xs = foldl (\<lambda>a b. a * b) 1 xs"

subsection \<open>\<open>split_sizes\<close> (codegen/triton.py)\<close>

text \<open>
  \<^verbatim>\<open>
  def split_sizes(sizes, prod1, prod2):
      for i in range(len(sizes)):
          if product(sizes[:i]) == prod1 and product(sizes[i:]) == prod2:
              return i
      return None
  \<close>
  The loop runs over the candidates \<open>range(len(sizes))\<close> and returns at the first hit.
\<close>

fun split_sizes_loop :: "'a::monoid_mult list \<Rightarrow> 'a \<Rightarrow> 'a \<Rightarrow> nat list \<Rightarrow> nat option" where
  "split_sizes_loop sizes prod1 prod2 [] = None"
| "split_sizes_loop sizes prod1 prod2 (i # rest) =
     (if product_seq (take i sizes) = prod1 \<and> product_seq (drop i sizes) = prod2 then Some i
      else split_sizes_loop sizes prod1 prod2 rest)"

definition split_sizes :: "'a::monoid_mult list \<Rightarrow> 'a \<Rightarrow> 'a \<Rightarrow> nat option" where
  "split_sizes sizes prod1 prod2 = split_sizes_loop sizes prod1 prod2 [0..<length sizes]"

subsection \<open>\<open>FixedLayout\<close> (ir.py)\<close>

text \<open>
  \<^verbatim>\<open>
  def default_strides(sizes):
      if len(sizes) == 0:
          return []
      reversed_strides = [sympy.Integer(1)]
      for size in reversed(sizes[1:]):
          reversed_strides.append(size * reversed_strides[-1])
      return list(reversed(reversed_strides))
  \<close>
  \<open>reversed_strides\<close> is never empty, so \<open>reversed_strides[-1]\<close> is its last element.
\<close>

definition default_strides :: "'a::monoid_mult list \<Rightarrow> 'a list" where
  "default_strides sizes =
     (if length sizes = 0 then []
      else rev (fold (\<lambda>size reversed_strides. reversed_strides @ [size * last reversed_strides])
                     (rev (tl sizes)) [1]))"

section \<open>The symbolic shape allocator (shapes.py)\<close>

text \<open>
  The allocator hands out two kinds of sympy expressions: the constants \<open>Integer(0)\<close>
  and \<open>Integer(1)\<close>, and symbols named by a prefix and a running number. The sizes and
  strides of the graph inputs are such expressions. \<open>str\<close> of a symbol is its name,
  \<open>str\<close> of an integer its decimal numeral.
\<close>

datatype size_expr = Integer int | Symbol string

fun str_nat :: "nat \<Rightarrow> string" where
  "str_nat n =
     (if n < 10 then [''0123456789'' ! n]
      else str_nat (n div 10) @ [''0123456789'' ! (n mod 10)])"

declare str_nat.simps [simp del]

definition str_int :: "int \<Rightarrow> string" where
  "str_int i = (if i < 0 then ''-'' @ str_nat (nat (- i)) else str_nat (nat i))"

fun str_expr :: "size_expr \<Rightarrow> string" where
  "str_expr (Integer i) = str_int i"
| "str_expr (Symbol name) = name"

text \<open>
  \<open>val_to_var\<close> is a dictionary that is only looked up and extended; \<open>var_to_val\<close> is
  an \<open>OrderedDict\<close>, whose keys are read in insertion order, so it is an association
  list: assigning to a key that is present keeps its position, a new key goes last.
\<close>

record size_var_allocator =
  prefix :: string
  val_to_var :: "int \<rightharpoonup> size_expr"
  var_to_val :: "(size_expr \<times> int) list"

fun ordered_dict_set :: "('k \<times> 'v) list \<Rightarrow> 'k \<Rightarrow> 'v \<Rightarrow> ('k \<times> 'v) list" where
  "ordered_dict_set [] k v = [(k, v)]"
| "ordered_dict_set ((k', v') # d) k v =
     (if k' = k then (k', v) # d else (k', v') # ordered_dict_set d k v)"

text \<open>
  \<^verbatim>\<open>
  def __init__(self, prefix="s", zero_one_const=True):
      self.prefix = prefix
      self.val_to_var = {0: Integer(0), 1: Integer(1)}
      self.var_to_val = collections.OrderedDict()
      if not zero_one_const:
          self.val_to_var.clear()
  \<close>
\<close>

definition SizeVarAllocator_init :: "string \<Rightarrow> bool \<Rightarrow> size_var_allocator" where
  "SizeVarAllocator_init pre zero_one_const =
     (let self = \<lparr>prefix = pre,
                  val_to_var = [0 \<mapsto> Integer 0, 1 \<mapsto> Integer 1],
                  var_to_val = []\<rparr>
      in if \<not> zero_one_const then self\<lparr>val_to_var := Map.empty\<rparr> else self)"

text \<open>
  \<^verbatim>\<open>
  def __getitem__(self, val):
      if val in self.val_to_var:
          return self.val_to_var[val]
      var = Symbol(f"{self.prefix}{len(self.var_to_val)}")
      self.val_to_var[val] = var
      self.var_to_val[var] = val
      return var
  \<close>
  The model returns the expression and the allocator after the call.
\<close>

definition SizeVarAllocator_getitem ::
  "size_var_allocator \<Rightarrow> int \<Rightarrow> size_expr \<times> size_var_allocator" where
  "SizeVarAllocator_getitem self val =
     (case val_to_var self val of
        Some var \<Rightarrow> (var, self)
      | None \<Rightarrow>
          (let var = Symbol (prefix self @ str_nat (length (var_to_val self)));
               self = self\<lparr>val_to_var := (val_to_var self)(val \<mapsto> var)\<rparr>;
               self = self\<lparr>var_to_val := ordered_dict_set (var_to_val self) var val\<rparr>
           in (var, self)))"

text \<open>The allocator after a sequence of lookups.\<close>

definition lookups :: "size_var_allocator \<Rightarrow> int list \<Rightarrow> size_var_allocator" where
  "lookups self vals = fold (\<lambda>val self. snd (SizeVarAllocator_getitem self val)) vals self"

text \<open>
  \<^verbatim>\<open>
  def codegen(self, code, graph_inputs):
      needed = set(map(str, self.var_to_val.keys()))
      for name, value in graph_inputs.items():
          shapes = value.get_size()
          for dim, shape in enumerate(shapes):
              shape = str(shape)
              if shape in needed:
                  needed.remove(shape)
                  code.writeline(f"{shape} = {name}.size({dim})")
      for name, value in graph_inputs.items():
          shapes = value.get_stride()
          for dim, shape in enumerate(shapes):
              shape = str(shape)
              if shape in needed:
                  needed.remove(shape)
                  code.writeline(f"{shape} = {name}.stride({dim})")
      assert not needed
  \<close>
  A graph input is an \<open>InputBuffer\<close> (ir.py), whose \<open>get_size\<close> and \<open>get_stride\<close>
  read the size and the stride of its layout; \<open>graph_inputs\<close> is a dictionary read in
  insertion order, an association list from names to inputs. \<open>code\<close> is the list of
  the lines written so far and \<open>writeline\<close> appends one. The two loop nests differ in
  the accessor only, so one function models both. The lines are written before the
  assertion is checked: the model returns them also when the assertion fails.
\<close>

record input_buffer =
  get_size :: "size_expr list"
  get_stride :: "size_expr list"

definition bind_dim ::
  "string \<Rightarrow> string \<Rightarrow> nat \<times> size_expr \<Rightarrow> string set \<times> string list
     \<Rightarrow> string set \<times> string list" where
  "bind_dim accessor name ds st =
     (let (dim, shape) = ds; (needed, code) = st; shape = str_expr shape
      in if shape \<in> needed
         then (needed - {shape},
               code @ [shape @ '' = '' @ name @ ''.'' @ accessor @ ''('' @ str_nat dim @ '')''])
         else (needed, code))"

definition bind_loop ::
  "string \<Rightarrow> (input_buffer \<Rightarrow> size_expr list) \<Rightarrow> (string \<times> input_buffer) list
     \<Rightarrow> string set \<times> string list \<Rightarrow> string set \<times> string list" where
  "bind_loop accessor get_shapes graph_inputs st =
     fold (\<lambda>(name, value) st.
             fold (bind_dim accessor name) (enumerate 0 (get_shapes value)) st)
          graph_inputs st"

definition SizeVarAllocator_codegen ::
  "size_var_allocator \<Rightarrow> string list \<Rightarrow> (string \<times> input_buffer) list
     \<Rightarrow> (error + unit) \<times> string list" where
  "SizeVarAllocator_codegen self code graph_inputs =
     (let needed = set (map (\<lambda>(var, val). str_expr var) (var_to_val self));
          (needed, code) = bind_loop ''size'' get_size graph_inputs (needed, code);
          (needed, code) = bind_loop ''stride'' get_stride graph_inputs (needed, code)
      in (if needed = {} then Inr () else Inl AssertionError, code))"

text \<open>
  The places the scan visits, in its order: for every input and every dimension of its
  shapes, the printed shape and the binding line the scan writes there if it writes one.
\<close>

definition binding_candidates ::
  "string \<Rightarrow> (input_buffer \<Rightarrow> size_expr list) \<Rightarrow> (string \<times> input_buffer) list
     \<Rightarrow> (string \<times> string) list" where
  "binding_candidates accessor get_shapes graph_inputs =
     concat (map (\<lambda>(name, value).
                    map (\<lambda>(dim, shape).
                           (str_expr shape,
                            str_expr shape @ '' = '' @ name @ ''.'' @ accessor
                              @ ''('' @ str_nat dim @ '')''))
                        (enumerate 0 (get_shapes value)))
                 graph_inputs)"

text \<open>
  For the proofs the two loop nests are read as one pass over the visited places: a
  place whose printed shape is still needed writes its line and removes the name.
\<close>

definition bind_step :: "string \<times> string \<Rightarrow> string set \<times> string list \<Rightarrow> string set \<times> string list" where
  "bind_step c st = (if fst c \<in> fst st then (fst st - {fst c}, snd st @ [snd c]) else st)"

fun first_lines :: "string set \<Rightarrow> (string \<times> string) list \<Rightarrow> string list" where
  "first_lines N [] = []"
| "first_lines N (c # cs) = (if fst c \<in> N then snd c # first_lines (N - {fst c}) cs else first_lines N cs)"

text \<open>Three graph inputs for the concrete evaluations.\<close>

definition demo_inputs :: "(string \<times> input_buffer) list" where
  "demo_inputs =
     [(''a'', \<lparr>get_size = [Symbol ''s0'', Integer 1], get_stride = [Integer 1, Symbol ''s0'']\<rparr>),
      (''b'', \<lparr>get_size = [Symbol ''s0'', Symbol ''s1''], get_stride = [Symbol ''s1'', Integer 1]\<rparr>),
      (''c'', \<lparr>get_size = [Symbol ''s1''], get_stride = [Symbol ''s2'']\<rparr>)]"

section \<open>Views (ir.py)\<close>

text \<open>
  \<^verbatim>\<open>
  class ExpandView(BaseView):
      size: List[Expr]

      def make_loader(self):
          target = self.get_size()
          actual = self.data.get_size()
          skip = len(target) - len(actual)
          inner = self.data.make_loader()

          def load(index):
              index = list(index[skip:])
              assert len(index) == len(actual)
              for i in len(actual):
                  if actual[i] == 1:
                      # zero out broadcast dimension
                      index[i] = sympy.Integer(0)
              return inner(index)

          return load
  \<close>
  \<open>skip\<close> is an integer that can be negative, and a slice with a negative start counts
  from the end of the list. \<open>len(actual)\<close> is an integer, and the \<open>for\<close> statement asks
  it for an iterator: an integer has none, so the statement raises \<open>TypeError\<close> before
  its body runs.
\<close>

definition slice_from :: "int \<Rightarrow> 'a list \<Rightarrow> 'a list" where
  "slice_from start xs =
     (if 0 \<le> start then drop (nat start) xs else drop (nat (int (length xs) + start)) xs)"

definition iter_int :: "nat \<Rightarrow> error + nat list" where
  "iter_int n = Inl TypeError"

text \<open>
  The view is given by its own size (\<open>target\<close>), the size of the wrapped node
  (\<open>actual\<close>) and the loader of the wrapped node (\<open>inner\<close>), which may itself fail.
\<close>

definition ExpandView_make_loader ::
  "'s::one list \<Rightarrow> 's list \<Rightarrow> ('i::zero list \<Rightarrow> error + 'r) \<Rightarrow> 'i list \<Rightarrow> error + 'r" where
  "ExpandView_make_loader target actual inner index =
     (let skip = int (length target) - int (length actual);
          index = slice_from skip index
      in if length index \<noteq> length actual then Inl AssertionError
         else case iter_int (length actual) of
                Inl e \<Rightarrow> Inl e
              | Inr indices \<Rightarrow>
                  inner (fold (\<lambda>i index. if actual ! i = 1 then index[i := 0] else index)
                              indices index))"

section \<open>The Triton kernel (codegen/triton.py)\<close>

subsection \<open>Index expressions\<close>

text \<open>
  The index expressions that reach the kernel are integer polynomials in symbols: sums
  of products of iteration variables, reduction variables and size symbols with an
  integer coefficient, as \<open>FixedLayout.make_indexer\<close> builds them. sympy keeps such a
  sum with its like terms collected, so that the expression equals 0 exactly when no
  term is left. An expression is the list of its terms, a term the list of the symbols
  of its product and its coefficient. Substituting 0 for a variable removes the terms
  that contain it.
\<close>

type_synonym monomial = "string list"

type_synonym index_expr = "(monomial \<times> int) list"

definition same_monomial :: "monomial \<Rightarrow> monomial \<Rightarrow> bool" where
  "same_monomial a b = list_all (\<lambda>x. count_list a x = count_list b x) (a @ b)"

fun add_term :: "monomial \<Rightarrow> int \<Rightarrow> index_expr \<Rightarrow> index_expr" where
  "add_term m c [] = (if c = 0 then [] else [(m, c)])"
| "add_term m c ((m', c') # e) =
     (if same_monomial m m' then (if c + c' = 0 then e else (m', c + c') # e)
      else (m', c') # add_term m c e)"

definition collect :: "index_expr \<Rightarrow> index_expr" where
  "collect e = fold (\<lambda>(m, c) acc. add_term m c acc) e []"

definition subs_zero :: "string list \<Rightarrow> index_expr \<Rightarrow> index_expr" where
  "subs_zero vars e = collect (filter (\<lambda>(m, c). list_all (\<lambda>v. v \<notin> set m) vars) e)"

definition expr_sub :: "index_expr \<Rightarrow> index_expr \<Rightarrow> index_expr" where
  "expr_sub a b = collect (a @ map (\<lambda>(m, c). (m, - c)) b)"

subsection \<open>What the kernel takes from codegen/common.py\<close>

text \<open>
  \<open>codegen/common.py\<close> is not among the sources. The kernel uses from it the
  expression printer \<open>texpr\<close>, \<open>Kernel.rename_indexing\<close>, the kernel-local names of the
  buffers (\<open>args.input\<close>, \<open>args.output\<close>) and the names of the variables that the
  common-subexpression cache mints; they are parameters of the model. The bookkeeping
  that \<open>rename_indexing\<close> and \<open>args\<close> do on the argument list of the kernel is left out.
\<close>

record kernel_env =
  texpr :: "index_expr \<Rightarrow> string"
  rename_indexing :: "index_expr \<Rightarrow> index_expr"
  args_input :: "string \<Rightarrow> string"
  args_output :: "string \<Rightarrow> string"
  newvar :: "nat \<Rightarrow> string"

text \<open>
  The state of a kernel: its iteration and reduction variables (sympy symbols, by
  name), the reduction mode, the three code buffers (lists of lines) and the
  common-subexpression cache (a dictionary from expression text to variable).
\<close>

record triton_kernel =
  iter_vars :: "string list"
  reduction_vars :: "string list"
  inside_reduction :: bool
  loads :: "string list"
  compute :: "string list"
  stores :: "string list"
  cse_cache :: "(string \<times> string) list"

definition cse_generate ::
  "kernel_env \<Rightarrow> (string \<times> string) list \<Rightarrow> string list \<Rightarrow> string
     \<Rightarrow> string \<times> (string \<times> string) list \<times> string list" where
  \<comment> \<open>Modelled from the spec: \<open>cse.generate\<close> of \<open>codegen/common.py\<close>, which is not among
      the sources. The spec: "a common-subexpression cache keyed by the rendered
      expression string: identical textual expressions are computed once and reused by
      reference". A new expression is assigned to a fresh variable by a line written
      to the given buffer; a cached one writes nothing.\<close>
  "cse_generate env cache buffer expr =
     (case map_of cache expr of
        Some var \<Rightarrow> (var, cache, buffer)
      | None \<Rightarrow>
          (let var = newvar env (length cache)
           in (var, cache @ [(expr, var)], buffer @ [var @ '' = '' @ expr])))"

subsection \<open>\<open>TritonKernel.indexing\<close>\<close>

fun join :: "string \<Rightarrow> string list \<Rightarrow> string" where
  "join sep [] = []"
| "join sep [x] = x"
| "join sep (x # y # ys) = x @ sep @ join sep (y # ys)"

text \<open>
  \<^verbatim>\<open>
  def indexing(self, index: sympy.Expr):
      index = self.rename_indexing(index)
      offset = index.subs({v: 0 for v in chain(self.iter_vars, self.reduction_vars)})
      base_part = index.subs({v: 0 for v in self.reduction_vars}) - offset
      reduction_part = index.subs({v: 0 for v in self.iter_vars}) - offset
      addr = []
      if offset != 0:
          addr.append(texpr(offset))

      if base_part != 0:
          addr.append(texpr(base_part))
      else:
          addr.append("tl.zeros((BLOCK_SIZE, ), tl.int32)")

      if self.inside_reduction:
          addr[-1] = f"tl.reshape({addr[-1]}, (BLOCK_SIZE, 1))"

          if reduction_part != 0:
              addr.append(texpr(reduction_part))
          else:
              addr.append("tl.zeros((REDUCTION_SIZE, ), tl.int32)")

          addr[-1] = f"tl.reshape({addr[-1]}, (1, REDUCTION_SIZE))"
      else:
          assert reduction_part == 0

      return " + ".join(addr)
  \<close>
  \<open>addr\<close> is not empty where \<open>addr[-1]\<close> is read and assigned; the model writes the
  position \<open>length addr - 1\<close>.
\<close>

definition indexing :: "kernel_env \<Rightarrow> triton_kernel \<Rightarrow> index_expr \<Rightarrow> error + string" where
  "indexing env self index =
     (let index = rename_indexing env index;
          offset = subs_zero (iter_vars self @ reduction_vars self) index;
          base_part = expr_sub (subs_zero (reduction_vars self) index) offset;
          reduction_part = expr_sub (subs_zero (iter_vars self) index) offset;
          addr = [];
          addr = (if offset \<noteq> [] then addr @ [texpr env offset] else addr);
          addr = (if base_part \<noteq> [] then addr @ [texpr env base_part]
                  else addr @ [''tl.zeros((BLOCK_SIZE, ), tl.int32)''])
      in if inside_reduction self
         then (let addr = addr[length addr - 1 :=
                            ''tl.reshape('' @ last addr @ '', (BLOCK_SIZE, 1))''];
                   addr = (if reduction_part \<noteq> [] then addr @ [texpr env reduction_part]
                           else addr @ [''tl.zeros((REDUCTION_SIZE, ), tl.int32)'']);
                   addr = addr[length addr - 1 :=
                            ''tl.reshape('' @ last addr @ '', (1, REDUCTION_SIZE))'']
               in Inr (join '' + '' addr))
         else if reduction_part = [] then Inr (join '' + '' addr)
         else Inl AssertionError)"

subsection \<open>\<open>mask\<close>, \<open>load\<close>, \<open>store\<close>\<close>

text \<open>
  \<^verbatim>\<open>
  def mask(self, reductions=True):
      return (
          "mask=mask_reduction"
          if (self.inside_reduction and reductions)
          else "mask=mask"
      )

  def load(self, name: str, index: sympy.Expr):
      var = self.args.input(name)
      line = f"tl.load({var} + {self.indexing(index)}, {self.mask()})"
      return self.cse.generate(self.loads, line)

  def store(self, name, index, value):
      var = self.args.output(name)
      line = f"tl.store({var} + {self.indexing(index)}, {value}, {self.mask()})"
      self.stores.writeline(line)
  \<close>
  A stateful operation returns its outcome together with the kernel as the call left
  it, also when it fails.
\<close>

definition mask_str :: "triton_kernel \<Rightarrow> bool \<Rightarrow> string" where
  "mask_str self reductions =
     (if inside_reduction self \<and> reductions then ''mask=mask_reduction'' else ''mask=mask'')"

definition load ::
  "kernel_env \<Rightarrow> string \<Rightarrow> index_expr \<Rightarrow> triton_kernel \<Rightarrow> (error + string) \<times> triton_kernel" where
  "load env name index self =
     (let var = args_input env name
      in case indexing env self index of
           Inl e \<Rightarrow> (Inl e, self)
         | Inr addr \<Rightarrow>
             (let line = ''tl.load('' @ var @ '' + '' @ addr @ '', '' @ mask_str self True @ '')'';
                  (res, cache, buffer) = cse_generate env (cse_cache self) (loads self) line
              in (Inr res, self\<lparr>loads := buffer, cse_cache := cache\<rparr>)))"

definition store ::
  "kernel_env \<Rightarrow> string \<Rightarrow> index_expr \<Rightarrow> string \<Rightarrow> triton_kernel
     \<Rightarrow> (error + unit) \<times> triton_kernel" where
  "store env name index val self =
     (let var = args_output env name
      in case indexing env self index of
           Inl e \<Rightarrow> (Inl e, self)
         | Inr addr \<Rightarrow>
             (let line = ''tl.store('' @ var @ '' + '' @ addr @ '', '' @ val @ '', ''
                           @ mask_str self True @ '')''
              in (Inr (), self\<lparr>stores := stores self @ [line]\<rparr>)))"

subsection \<open>\<open>TritonKernel.reduction\<close>\<close>

text \<open>
  \<^verbatim>\<open>
  def reduction(self, name, dtype, reduction_type, index, value):
      default = {"sum": 0, "max": "float('-inf')", "min": "float('inf')"}
      res = self.cse.generate(
          self.compute,
          f"tl.where(mask_reduction, {value}, "
          f"{default[reduction_type]}) if NEED_MASK else {value}",
      )
      res = self.cse.generate(self.compute, f"tl.{reduction_type}({res}, 1)")
      assert self.inside_reduction
      self.inside_reduction = False
      ops.store(name, index, res)
      self.inside_reduction = True
  \<close>
  The argument of the first \<open>cse.generate\<close> is evaluated before the call, so a
  reduction type that is not a key of \<open>default\<close> raises \<open>KeyError\<close> before anything is
  written. An exception of the store leaves \<open>inside_reduction\<close> reset.
\<close>

definition default_dict :: "string \<rightharpoonup> string" where
  "default_dict = [''sum'' \<mapsto> ''0'', ''max'' \<mapsto> ''float('-inf')'', ''min'' \<mapsto> ''float('inf')'']"

definition ops_store ::
  "kernel_env \<Rightarrow> string \<Rightarrow> index_expr \<Rightarrow> string \<Rightarrow> triton_kernel
     \<Rightarrow> (error + unit) \<times> triton_kernel" where
  \<comment> \<open>Modelled from the spec: \<open>ops\<close> of \<open>virtualized.py\<close>, which is not among the sources.
      The spec: operations "call into the Kernel (via a virtualized current-kernel
      context) to register loads/stores/reductions", and the reduction "stores the
      scalar-per-iteration-row result": \<open>ops.store\<close> is the store of the open kernel.\<close>
  "ops_store env name index val self = store env name index val self"

definition reduction ::
  "kernel_env \<Rightarrow> string \<Rightarrow> string \<Rightarrow> string \<Rightarrow> index_expr \<Rightarrow> string \<Rightarrow> triton_kernel
     \<Rightarrow> (error + unit) \<times> triton_kernel" where
  "reduction env name dtype reduction_type index val self =
     (case default_dict reduction_type of
        None \<Rightarrow> (Inl KeyError, self)
      | Some d \<Rightarrow>
          (let (res, cache, buffer) =
                 cse_generate env (cse_cache self) (compute self)
                   (''tl.where(mask_reduction, '' @ val @ '', '' @ d @ '') if NEED_MASK else '' @ val);
               self = self\<lparr>compute := buffer, cse_cache := cache\<rparr>;
               (res, cache, buffer) =
                 cse_generate env (cse_cache self) (compute self)
                   (''tl.'' @ reduction_type @ ''('' @ res @ '', 1)'');
               self = self\<lparr>compute := buffer, cse_cache := cache\<rparr>
           in if \<not> inside_reduction self then (Inl AssertionError, self)
              else (let self = self\<lparr>inside_reduction := False\<rparr>
                    in case ops_store env name index res self of
                         (Inl e, self) \<Rightarrow> (Inl e, self)
                       | (Inr u, self) \<Rightarrow> (Inr (), self\<lparr>inside_reduction := True\<rparr>))))"

subsection \<open>The mask variables in \<open>codegen_kernel\<close>\<close>

text \<open>
  \<open>codegen_kernel\<close> renders the kernel; its parameter list ends with
  \<open>NEED_MASK: tl.constexpr\<close>, and after the lines that derive \<open>indices0\<close> it writes
  the lines that bind the mask variables:
  \<^verbatim>\<open>
  if self.inside_reduction:
      code.splice("""
              reduction0 = tl.arange(0, REDUCTION_SIZE)
              if NEED_MASK:
                  mask = indices0 < numel
                  mask_reduction = (tl.reshape(mask, (BLOCK_SIZE, 1)) &
                                    tl.reshape(reduction0 < reduction_numel, (1, REDUCTION_SIZE)))
              else:
                  mask = None
                  mask_reduction = None
          """, strip=True)
  else:
      code.splice("""
          if NEED_MASK:
              mask = indices0 < numel
          else:
              mask = None
      """, strip=True)
  \<close>
  The generator has no need-mask input: \<open>NEED_MASK\<close> is a parameter of the kernel it
  writes. The model keeps these lines with the indentation they have relative to each
  other.
\<close>

definition mask_prologue :: "triton_kernel \<Rightarrow> string list" where
  "mask_prologue self =
     (if inside_reduction self
      then [''reduction0 = tl.arange(0, REDUCTION_SIZE)'',
            ''if NEED_MASK:'',
            ''    mask = indices0 < numel'',
            ''    mask_reduction = (tl.reshape(mask, (BLOCK_SIZE, 1)) &'',
            ''                      tl.reshape(reduction0 < reduction_numel, (1, REDUCTION_SIZE)))'',
            ''else:'',
            ''    mask = None'',
            ''    mask_reduction = None'']
      else [''if NEED_MASK:'',
            ''    mask = indices0 < numel'',
            ''else:'',
            ''    mask = None''])"

text \<open>Whether a line of code contains a word.\<close>

fun mentions :: "string \<Rightarrow> string \<Rightarrow> bool" where
  "mentions word [] = (word = [])"
| "mentions word (c # cs) = (take (length word) (c # cs) = word \<or> mentions word cs)"

subsection \<open>A sample environment\<close>

text \<open>
  For the concrete evaluations: a printer that writes a polynomial as the sum of its
  terms, no renaming, buffers named by a prefix, and variables \<open>tmp0\<close>, \<open>tmp1\<close>, ...
\<close>

definition demo_term :: "monomial \<times> int \<Rightarrow> string" where
  "demo_term t =
     (case t of (m, c) \<Rightarrow>
        if m = [] then str_int c
        else if c = 1 then join ''*'' m
        else str_int c @ ''*'' @ join ''*'' m)"

definition demo_env :: kernel_env where
  "demo_env =
     \<lparr>texpr = (\<lambda>e. if e = [] then ''0'' else join '' + '' (map demo_term e)),
      rename_indexing = (\<lambda>e. e),
      args_input = (\<lambda>name. ''in_'' @ name),
      args_output = (\<lambda>name. ''out_'' @ name),
      newvar = (\<lambda>n. ''tmp'' @ str_nat n)\<rparr>"

definition demo_kernel :: "bool \<Rightarrow> triton_kernel" where
  "demo_kernel in_reduction =
     \<lparr>iter_vars = [''i0'', ''i1''], reduction_vars = [''r0''],
      inside_reduction = in_reduction,
      loads = [], compute = [], stores = [], cse_cache = []\<rparr>"

subsection \<open>The three parts of an index\<close>

text \<open>
  The parts of an index as the specification words them: the offset is the index with
  all iteration and reduction variables replaced by 0, the base part the index with
  the reduction variables replaced by 0 minus the offset, the reduction part the index
  with the iteration variables replaced by 0 minus the offset. The index is taken
  after the renaming of the kernel.
\<close>

definition offset_of :: "kernel_env \<Rightarrow> triton_kernel \<Rightarrow> index_expr \<Rightarrow> index_expr" where
  "offset_of env self index =
     subs_zero (iter_vars self @ reduction_vars self) (rename_indexing env index)"

definition base_part_of :: "kernel_env \<Rightarrow> triton_kernel \<Rightarrow> index_expr \<Rightarrow> index_expr" where
  "base_part_of env self index =
     expr_sub (subs_zero (reduction_vars self) (rename_indexing env index))
              (offset_of env self index)"

definition reduction_part_of :: "kernel_env \<Rightarrow> triton_kernel \<Rightarrow> index_expr \<Rightarrow> index_expr" where
  "reduction_part_of env self index =
     expr_sub (subs_zero (iter_vars self) (rename_indexing env index))
              (offset_of env self index)"

section \<open>Properties of the size arithmetic\<close>

lemma foldl_times_prod_list: "foldl (\<lambda>a b. a * b) (a::'a::monoid_mult) xs = a * prod_list xs"
  by (induction xs arbitrary: a) (simp_all add: mult.assoc)

lemma product_prod_list: "product_seq xs = prod_list xs"
  by (simp add: product_seq_def foldl_times_prod_list)

subsection \<open>\<open>split_sizes\<close>\<close>

lemma split_sizes_loop_None:
  "split_sizes_loop sizes p1 p2 cands = None \<longleftrightarrow>
     (\<forall>i\<in>set cands. \<not> (product_seq (take i sizes) = p1 \<and> product_seq (drop i sizes) = p2))"
  by (induction cands) auto

lemma split_sizes_loop_append:
  "split_sizes_loop sizes p1 p2 (xs @ ys) =
     (case split_sizes_loop sizes p1 p2 xs of
        None \<Rightarrow> split_sizes_loop sizes p1 p2 ys
      | Some i \<Rightarrow> Some i)"
  by (induction xs) auto

lemma split_sizes_loop_hit:
  assumes "product_seq (take i sizes) = p1" "product_seq (drop i sizes) = p2"
    and "\<forall>j\<in>set xs. \<not> (product_seq (take j sizes) = p1 \<and> product_seq (drop j sizes) = p2)"
  shows "split_sizes_loop sizes p1 p2 (xs @ i # ys) = Some i"
  using assms by (simp add: split_sizes_loop_append split_sizes_loop_None [THEN iffD2])

lemma split_sizes_Some_iff:
  "split_sizes sizes p1 p2 = Some i \<longleftrightarrow>
     i < length sizes \<and> product_seq (take i sizes) = p1 \<and> product_seq (drop i sizes) = p2
     \<and> (\<forall>j<i. \<not> (product_seq (take j sizes) = p1 \<and> product_seq (drop j sizes) = p2))"
  (is "?L \<longleftrightarrow> ?R")
proof
  let ?ok = "\<lambda>n. product_seq (take n sizes) = p1 \<and> product_seq (drop n sizes) = p2"
  have first: "split_sizes sizes p1 p2 = Some m"
    if m: "m < length sizes" "?ok m" "\<forall>j<m. \<not> ?ok j" for m
  proof -
    have "[0..<length sizes] = [0..<m] @ m # [Suc m..<length sizes]"
    proof -
      have "[0..<length sizes] = [0..<m] @ [m..<length sizes]"
        using m(1) by (metis upt_add_eq_append le0 le_add_diff_inverse less_imp_le_nat)
      then show ?thesis using m(1) by (simp add: upt_conv_Cons)
    qed
    moreover have "\<forall>j\<in>set [0..<m]. \<not> ?ok j" using m(3) by simp
    ultimately show ?thesis
      unfolding split_sizes_def using m(2) by (simp only: split_sizes_loop_hit)
  qed
  show "?R \<Longrightarrow> ?L" using first by blast
  assume L: ?L
  then have "\<exists>n. n < length sizes \<and> ?ok n"
    unfolding split_sizes_def
    by (metis split_sizes_loop_None option.distinct(1) atLeastLessThan_iff set_upt)
  then obtain n where n: "n < length sizes \<and> ?ok n" ..
  define m where "m = (LEAST n. n < length sizes \<and> ?ok n)"
  have m: "m < length sizes \<and> ?ok m" unfolding m_def using n by (rule LeastI)
  have "\<forall>j<m. \<not> ?ok j"
  proof (intro allI impI)
    fix j assume "j < m"
    then have "\<not> (j < length sizes \<and> ?ok j)" unfolding m_def by (rule not_less_Least)
    moreover have "j < length sizes" using \<open>j < m\<close> m by simp
    ultimately show "\<not> ?ok j" by blast
  qed
  then have "split_sizes sizes p1 p2 = Some m" using first m by blast
  then have "i = m" using L by simp
  then show ?R using m \<open>\<forall>j<m. \<not> ?ok j\<close> by blast
qed

lemma split_sizes_None_iff:
  "split_sizes sizes p1 p2 = None \<longleftrightarrow>
     (\<forall>i<length sizes. \<not> (product_seq (take i sizes) = p1 \<and> product_seq (drop i sizes) = p2))"
  by (auto simp add: split_sizes_def split_sizes_loop_None)

text \<open>
  C1 (amended). For every size list \<open>L\<close> and all targets \<open>p1\<close>, \<open>p2\<close>, \<open>split_sizes\<close>
  returns \<open>i\<close> exactly when \<open>i\<close> is the smallest index below \<open>len(L)\<close> for which the
  prefix \<open>L[:i]\<close> has product \<open>p1\<close> and the suffix \<open>L[i:]\<close> has product \<open>p2\<close>, and it
  returns \<open>None\<close> exactly when no index below \<open>len(L)\<close> is such a split point. The split
  after the last element (\<open>i = len(L)\<close>, empty suffix) is never tried.
\<close>

theorem split_sizes_first_split:
  "(split_sizes L p1 p2 = Some i \<longleftrightarrow>
      i < length L \<and> product_seq (take i L) = p1 \<and> product_seq (drop i L) = p2
      \<and> (\<forall>j<i. \<not> (product_seq (take j L) = p1 \<and> product_seq (drop j L) = p2)))
   \<and> (split_sizes L p1 p2 = None \<longleftrightarrow>
      (\<forall>i<length L. \<not> (product_seq (take i L) = p1 \<and> product_seq (drop i L) = p2)))"
  using split_sizes_Some_iff [of L p1 p2 i] split_sizes_None_iff [of L p1 p2] by blast

theorem split_sizes_first_split_witness:
  "split_sizes [3, 1, 5 :: int] 3 5 = Some 1 \<and> split_sizes [3, 5 :: int] 4 4 = None"
  using split_sizes_first_split [of "[3, 1, 5 :: int]" 3 5 1]
    split_sizes_first_split [of "[3, 5 :: int]" 4 4 0]
  by (simp add: product_seq_def less_Suc_eq)

text \<open>
  The claim C1 as stated fails for the split after the last element: the whole list
  \<open>[2, 3]\<close> is a prefix of product 6, the remaining suffix is empty and has product 1,
  and \<open>6 * 1\<close> is the product of the list, but the result is \<open>None\<close> and not 2.
\<close>

theorem split_sizes_full_prefix_counterexample:
  "(6::int) * 1 = product_seq [2, 3] \<and> product_seq (take 2 [2, 3 :: int]) = 6
   \<and> product_seq (drop 2 [2, 3 :: int]) = 1 \<and> split_sizes [2, 3 :: int] 6 1 = None"
  by (simp add: split_sizes_def product_seq_def)

text \<open>
  C8 (amended). \<open>split_sizes([2,3,4], 6, 4)\<close> returns 2, the length of the prefix
  \<open>[2, 3]\<close> whose product is 6.
\<close>

theorem split_sizes_example:
  "split_sizes [2, 3, 4 :: int] 6 4 = Some 2"
  by (simp add: split_sizes_def product_seq_def)

text \<open>The value 1 that the claim C8 gives is not the result.\<close>

theorem split_sizes_example_counterexample:
  "split_sizes [2, 3, 4 :: int] 6 4 \<noteq> Some 1"
  by (simp add: split_sizes_def product_seq_def)

subsection \<open>\<open>default_strides\<close>\<close>

lemma default_strides_aux:
  "rev (fold (\<lambda>size rs. rs @ [size * last rs]) (rev ys) [1::'a::monoid_mult])
     = map (\<lambda>i. prod_list (drop i ys)) [0..<Suc (length ys)]"
proof (induction ys)
  case Nil
  show ?case by simp
next
  case (Cons y ys)
  let ?F = "fold (\<lambda>size rs. rs @ [size * last rs]) (rev ys) [1::'a]"
  have l: "last ?F = hd (rev ?F)" 
    by (metis hd_rev)
  have "hd (rev ?F) = prod_list ys"
    unfolding Cons.IH by (simp add: upt_rec)
  then have "rev (fold (\<lambda>size rs. rs @ [size * last rs]) (rev (y # ys)) [1])
     = (y * prod_list ys) # rev ?F" using l by simp
  also have "\<dots> = map (\<lambda>i. prod_list (drop i (y # ys))) [0..<Suc (length (y # ys))]"
    unfolding Cons.IH by (simp add: upt_rec [of 0] map_Suc_upt [symmetric] del: upt_Suc)
  finally show ?case .
qed

lemma default_strides_map:
  "sizes \<noteq> [] \<Longrightarrow>
     default_strides sizes = map (\<lambda>i. prod_list (drop (Suc i) sizes)) [0..<length sizes]"
  by (cases sizes) (simp_all add: default_strides_def default_strides_aux del: upt_Suc)

text \<open>
  C10. For a non-empty size list, \<open>default_strides\<close> returns a list of the same length
  whose last element is 1 and whose element at position \<open>i\<close> is the product of the sizes
  at the positions \<open>i+1\<close> to the end; for the empty size list it returns the empty list.
\<close>

theorem default_strides_contiguous:
  "default_strides ([] :: 'a::monoid_mult list) = []
   \<and> (sizes \<noteq> [] \<longrightarrow>
        length (default_strides sizes) = length sizes
        \<and> last (default_strides sizes) = (1 :: 'a)
        \<and> (\<forall>i<length sizes. default_strides sizes ! i = product_seq (drop (Suc i) sizes)))"
proof (intro conjI impI)
  show "default_strides ([] :: 'a list) = []" by (simp add: default_strides_def)
next
  assume ne: "sizes \<noteq> []"
  show "length (default_strides sizes) = length sizes"
    using ne by (simp add: default_strides_map)
  have "[0..<length sizes] = [0..<length sizes - 1] @ [length sizes - 1]"
    using ne by (cases sizes rule: rev_cases) simp_all
  then have "last (default_strides sizes) = prod_list (drop (Suc (length sizes - 1)) sizes)"
    using ne by (simp add: default_strides_map last_map)
  then show "last (default_strides sizes) = 1" using ne by simp
  show "\<forall>i<length sizes. default_strides sizes ! i = product_seq (drop (Suc i) sizes)"
    using ne by (simp add: default_strides_map product_prod_list)
qed

theorem default_strides_contiguous_witness:
  "[2, 3, 4 :: int] \<noteq> []
   \<and> length (default_strides [2, 3, 4 :: int]) = 3
   \<and> last (default_strides [2, 3, 4 :: int]) = 1
   \<and> default_strides [2, 3, 4 :: int] ! 0 = 12
   \<and> default_strides [2, 3, 4 :: int] ! 1 = 4"
proof -
  have ne: "[2, 3, 4 :: int] \<noteq> []" by simp
  note spec = default_strides_contiguous [of "[2, 3, 4 :: int]", THEN conjunct2, rule_format, OF ne]
  have "default_strides [2, 3, 4 :: int] ! 0 = product_seq (drop (Suc 0) [2, 3, 4])"
    and "default_strides [2, 3, 4 :: int] ! 1 = product_seq (drop (Suc 1) [2, 3, 4])"
    using spec by simp_all
  then show ?thesis using spec by (simp add: product_seq_def)
qed

section \<open>Properties of the symbolic shape allocator\<close>

subsection \<open>Lookup\<close>

lemma getitem_again:
  "SizeVarAllocator_getitem self v = (e, self') \<Longrightarrow> SizeVarAllocator_getitem self' v = (e, self')"
  by (auto simp: SizeVarAllocator_getitem_def Let_def split: option.splits)

lemma getitem_keeps:
  "val_to_var self k = Some e \<Longrightarrow> val_to_var (snd (SizeVarAllocator_getitem self v)) k = Some e"
  by (auto simp: SizeVarAllocator_getitem_def Let_def split: option.splits)

lemma lookups_keeps:
  "val_to_var self k = Some e \<Longrightarrow> val_to_var (lookups self vals) k = Some e"
  unfolding lookups_def
  by (induction vals arbitrary: self) (simp_all add: getitem_keeps)

lemma getitem_binds:
  "SizeVarAllocator_getitem self v = (e, self') \<Longrightarrow> val_to_var self' v = Some e"
  by (auto simp: SizeVarAllocator_getitem_def Let_def split: option.splits)

lemma getitem_bound:
  "val_to_var self v = Some e \<Longrightarrow> SizeVarAllocator_getitem self v = (e, self)"
  by (simp add: SizeVarAllocator_getitem_def)

text \<open>
  C6. A lookup of a value that was looked up before returns the expression of the first
  lookup and leaves the allocator unchanged, so that no variable is minted: this holds
  for the lookup that follows at once and for a lookup after any sequence of other
  lookups. In an allocator created with zero/one constant folding, after any sequence
  of lookups, the values 0 and 1 are looked up as the constants \<open>Integer(0)\<close> and
  \<open>Integer(1)\<close>, the allocator unchanged.
\<close>

theorem getitem_idempotent:
  "(SizeVarAllocator_getitem self v = (e, self') \<longrightarrow> SizeVarAllocator_getitem self' v = (e, self'))
   \<and> (SizeVarAllocator_getitem self v = (e, self') \<longrightarrow>
        SizeVarAllocator_getitem (lookups self' vals) v = (e, lookups self' vals))
   \<and> (SizeVarAllocator_getitem (lookups (SizeVarAllocator_init pre True) vals) 0
        = (Integer 0, lookups (SizeVarAllocator_init pre True) vals))
   \<and> (SizeVarAllocator_getitem (lookups (SizeVarAllocator_init pre True) vals) 1
        = (Integer 1, lookups (SizeVarAllocator_init pre True) vals))"
proof (intro conjI impI)
  assume "SizeVarAllocator_getitem self v = (e, self')"
  then show "SizeVarAllocator_getitem self' v = (e, self')" by (rule getitem_again)
next
  assume "SizeVarAllocator_getitem self v = (e, self')"
  then have "val_to_var self' v = Some e" by (rule getitem_binds)
  then have "val_to_var (lookups self' vals) v = Some e" by (rule lookups_keeps)
  then show "SizeVarAllocator_getitem (lookups self' vals) v = (e, lookups self' vals)"
    by (rule getitem_bound)
next
  have "val_to_var (SizeVarAllocator_init pre True) 0 = Some (Integer 0)"
    by (simp add: SizeVarAllocator_init_def)
  then have "val_to_var (lookups (SizeVarAllocator_init pre True) vals) 0 = Some (Integer 0)"
    by (rule lookups_keeps)
  then show "SizeVarAllocator_getitem (lookups (SizeVarAllocator_init pre True) vals) 0
        = (Integer 0, lookups (SizeVarAllocator_init pre True) vals)"
    by (rule getitem_bound)
next
  have "val_to_var (SizeVarAllocator_init pre True) 1 = Some (Integer 1)"
    by (simp add: SizeVarAllocator_init_def)
  then have "val_to_var (lookups (SizeVarAllocator_init pre True) vals) 1 = Some (Integer 1)"
    by (rule lookups_keeps)
  then show "SizeVarAllocator_getitem (lookups (SizeVarAllocator_init pre True) vals) 1
        = (Integer 1, lookups (SizeVarAllocator_init pre True) vals)"
    by (rule getitem_bound)
qed

theorem getitem_idempotent_witness:
  "SizeVarAllocator_getitem (SizeVarAllocator_init ''s'' True) 5
     = (Symbol ''s0'', lookups (SizeVarAllocator_init ''s'' True) [5])
   \<and> SizeVarAllocator_getitem (lookups (SizeVarAllocator_init ''s'' True) [5]) 5
     = (Symbol ''s0'', lookups (SizeVarAllocator_init ''s'' True) [5])
   \<and> SizeVarAllocator_getitem (lookups (SizeVarAllocator_init ''s'' True) [5]) 7
     = (Symbol ''s1'', lookups (SizeVarAllocator_init ''s'' True) [5, 7])
   \<and> SizeVarAllocator_getitem (lookups (SizeVarAllocator_init ''s'' True) [5, 7]) 5
     = (Symbol ''s0'', lookups (SizeVarAllocator_init ''s'' True) [5, 7])
   \<and> SizeVarAllocator_getitem (lookups (SizeVarAllocator_init ''s'' True) [5, 7]) 0
     = (Integer 0, lookups (SizeVarAllocator_init ''s'' True) [5, 7])"
proof -
  have first: "SizeVarAllocator_getitem (SizeVarAllocator_init ''s'' True) 5
     = (Symbol ''s0'', lookups (SizeVarAllocator_init ''s'' True) [5])"
    by (simp add: lookups_def SizeVarAllocator_init_def SizeVarAllocator_getitem_def
          str_nat.simps Let_def)
  have other: "SizeVarAllocator_getitem (lookups (SizeVarAllocator_init ''s'' True) [5]) 7
     = (Symbol ''s1'', lookups (SizeVarAllocator_init ''s'' True) [5, 7])"
    by (simp add: lookups_def SizeVarAllocator_init_def SizeVarAllocator_getitem_def
          str_nat.simps Let_def)
  have step: "lookups (lookups (SizeVarAllocator_init ''s'' True) [5]) [7]
     = lookups (SizeVarAllocator_init ''s'' True) [5, 7]"
    by (simp add: lookups_def)
  note again = getitem_idempotent [THEN conjunct1, rule_format, OF first]
  note later = getitem_idempotent [THEN conjunct2, THEN conjunct1, rule_format, OF first,
      of "[7]"]
  note zero = getitem_idempotent [THEN conjunct2, THEN conjunct2, THEN conjunct1,
      of "''s''" "[5, 7]"]
  show ?thesis
    using first other again later zero unfolding step by (simp only: simp_thms)
qed

subsection \<open>Binding emission\<close>

lemma fold_bind_dim:
  "fold (bind_dim accessor name) ds st =
   fold bind_step (map (\<lambda>(dim, shape). (str_expr shape,
            str_expr shape @ '' = '' @ name @ ''.'' @ accessor @ ''('' @ str_nat dim @ '')'')) ds) st"
  by (induction ds arbitrary: st) (auto simp: bind_dim_def bind_step_def Let_def split: prod.splits)

lemma bind_loop_flat:
  "bind_loop accessor g graph_inputs st = fold bind_step (binding_candidates accessor g graph_inputs) st"
  unfolding bind_loop_def binding_candidates_def
  by (induction graph_inputs arbitrary: st) (auto simp: fold_bind_dim)

lemma fold_bind_step:
  "fold bind_step cs (N, code) = (N - fst ` set cs, code @ first_lines N cs)"
  by (induction cs arbitrary: N code) (auto simp: bind_step_def)

lemma first_lines_closed:
  "first_lines N cs =
     [snd (cs ! i). i \<leftarrow> [0..<length cs], fst (cs ! i) \<in> N \<and> fst (cs ! i) \<notin> fst ` set (take i cs)]"
proof (induction cs arbitrary: N)
  case Nil
  show ?case by simp
next
  case (Cons c cs)
  have upt: "[0..<length (c # cs)] = 0 # map Suc [0..<length cs]"
    by (simp add: upt_conv_Cons map_Suc_upt del: upt_Suc)
  have tail: "concat (map (\<lambda>i. if fst ((c # cs) ! i) \<in> N \<and> fst ((c # cs) ! i) \<notin> fst ` set (take i (c # cs)) then [snd ((c # cs) ! i)] else []) (map Suc [0..<length cs]))
     = first_lines (N - {fst c}) cs"
    unfolding Cons.IH
    by (rule arg_cong [where f = concat]) (auto simp: comp_def)
  have tail': "fst c \<notin> N \<Longrightarrow> first_lines (N - {fst c}) cs = first_lines N cs"
    by simp
  show ?case
    unfolding upt using tail tail' by (simp del: upt_Suc)
qed


text \<open>
  C7. \<open>codegen\<close> visits the sizes of all graph inputs and then their strides, each in
  the order of the inputs and of their dimensions. A visited place writes its binding
  line, \<open>var = input.size(dim)\<close> or \<open>var = input.stride(dim)\<close>, exactly when its
  printed shape names a variable of the allocator that no earlier place of the scan
  names: every variable gets the line of the first place that matches it and no other
  line, and the lines come in the order of the scan. The assertion fails exactly when
  some variable of the allocator is named by no visited place.
\<close>

theorem codegen_bindings:
  "SizeVarAllocator_codegen self code graph_inputs =
     (let needed = set (map (\<lambda>(var, val). str_expr var) (var_to_val self));
          cs = binding_candidates ''size'' get_size graph_inputs
                 @ binding_candidates ''stride'' get_stride graph_inputs
      in (if needed \<subseteq> fst ` set cs then Inr () else Inl AssertionError,
          code @ [snd (cs ! i). i \<leftarrow> [0..<length cs],
                    fst (cs ! i) \<in> needed \<and> fst (cs ! i) \<notin> fst ` set (take i cs)]))"
proof -
  define needed where "needed = set (map (\<lambda>(var, val). str_expr var) (var_to_val self))"
  define cs1 where "cs1 = binding_candidates ''size'' get_size graph_inputs"
  define cs2 where "cs2 = binding_candidates ''stride'' get_stride graph_inputs"
  have scan: "bind_loop ''stride'' get_stride graph_inputs
                (bind_loop ''size'' get_size graph_inputs (needed, code))
              = (needed - fst ` set (cs1 @ cs2), code @ first_lines needed (cs1 @ cs2))"
    unfolding bind_loop_flat cs1_def [symmetric] cs2_def [symmetric]
    using fold_bind_step [of "cs1 @ cs2" needed code] by simp
  have empty: "needed - fst ` set (cs1 @ cs2) = {} \<longleftrightarrow> needed \<subseteq> fst ` set (cs1 @ cs2)"
    by blast
  have "SizeVarAllocator_codegen self code graph_inputs
          = (case bind_loop ''stride'' get_stride graph_inputs
                    (bind_loop ''size'' get_size graph_inputs (needed, code)) of
               (needed', code') \<Rightarrow> (if needed' = {} then Inr () else Inl AssertionError, code'))"
    by (simp add: SizeVarAllocator_codegen_def needed_def Let_def split: prod.splits)
  also have "\<dots> = (if needed \<subseteq> fst ` set (cs1 @ cs2) then Inr () else Inl AssertionError,
             code @ first_lines needed (cs1 @ cs2))"
    unfolding scan using empty by simp
  finally have "SizeVarAllocator_codegen self code graph_inputs
          = (if needed \<subseteq> fst ` set (cs1 @ cs2) then Inr () else Inl AssertionError,
             code @ first_lines needed (cs1 @ cs2))" .
  then show ?thesis
    unfolding first_lines_closed needed_def cs1_def cs2_def Let_def .
qed

lemma demo_alloc: "lookups (SizeVarAllocator_init ''s'' True) [5, 1, 7, 5, 35]
   = \<lparr>prefix = ''s'', val_to_var = [0 \<mapsto> Integer 0, 1 \<mapsto> Integer 1, 5 \<mapsto> Symbol ''s0'', 7 \<mapsto> Symbol ''s1'', 35 \<mapsto> Symbol ''s2''],
       var_to_val = [(Symbol ''s0'', 5), (Symbol ''s1'', 7), (Symbol ''s2'', 35)]\<rparr>"
  by (simp add: lookups_def SizeVarAllocator_init_def SizeVarAllocator_getitem_def str_nat.simps Let_def)

theorem codegen_bindings_witness:
  "SizeVarAllocator_codegen (lookups (SizeVarAllocator_init ''s'' True) [5, 1, 7, 5, 35]) [] demo_inputs
     = (Inr (), [''s0 = a.size(0)'', ''s1 = b.size(1)'', ''s2 = c.stride(0)''])
   \<and> SizeVarAllocator_codegen (lookups (SizeVarAllocator_init ''s'' True) [5, 1, 7, 5, 35]) [] (take 2 demo_inputs)
     = (Inl AssertionError, [''s0 = a.size(0)'', ''s1 = b.size(1)''])"
  unfolding codegen_bindings demo_alloc
  by (simp add: demo_inputs_def binding_candidates_def str_nat.simps str_int_def Let_def upt_rec)




section \<open>Properties of the views\<close>

lemma ExpandView_never_loads:
  "ExpandView_make_loader target actual inner index = Inl AssertionError
   \<or> ExpandView_make_loader target actual inner index = Inl TypeError"
  by (simp add: ExpandView_make_loader_def iter_int_def Let_def)

text \<open>
  C9. The claim asks the loader of an \<open>ExpandView\<close> to drop the padding positions, to
  replace the index of every dimension of size 1 by 0 and to call the inner loader
  with the result. The code does not get there: for the view of size \<open>[4, 3]\<close> over a
  node of size \<open>[1, 3]\<close> and the index \<open>[2, 1]\<close>, where the inner loader should
  receive \<open>[0, 1]\<close>, the loader raises \<open>TypeError\<close> at \<open>for i in len(actual)\<close>, as it
  does for every index that passes the length assertion.
\<close>

theorem ExpandView_load_raises:
  "ExpandView_make_loader [4, 3 :: int] [1, 3] (\<lambda>index. Inr index) [2, 1 :: int]
     = (Inl TypeError :: error + int list)
   \<and> ExpandView_make_loader [4, 3 :: int] [1, 3] (\<lambda>index. Inr index) [2, 1 :: int]
     \<noteq> (Inr [0, 1] :: error + int list)"
  by (simp add: ExpandView_make_loader_def iter_int_def slice_from_def Let_def)

section \<open>Properties of the Triton kernel\<close>

subsection \<open>Indexing\<close>

lemmas demo_eval = demo_env_def demo_kernel_def subs_zero_def expr_sub_def collect_def
      same_monomial_def demo_term_def str_int_def str_nat.simps Let_def
      offset_of_def base_part_of_def reduction_part_of_def

text \<open>
  C2. \<open>indexing\<close> computes the offset, the base part and the reduction part of the
  (renamed) index by the three substitutions, and the address it returns is the sum,
  in this order, of the offset if it is not zero, of the base part or else the
  zero-filled \<open>BLOCK_SIZE\<close> placeholder, and, inside a reduction only, of the reduction
  part or else the zero-filled \<open>REDUCTION_SIZE\<close> placeholder; inside a reduction the
  base part is reshaped to a \<open>(BLOCK_SIZE, 1)\<close> column and the reduction part to a
  \<open>(1, REDUCTION_SIZE)\<close> row.
\<close>

theorem indexing_parts:
  "indexing env self index =
     (let offset = offset_of env self index;
          base_part = base_part_of env self index;
          reduction_part = reduction_part_of env self index;
          offset_addr = (if offset = [] then [] else [texpr env offset]);
          base_addr = (if base_part = [] then ''tl.zeros((BLOCK_SIZE, ), tl.int32)''
                       else texpr env base_part);
          reduction_addr = (if reduction_part = [] then ''tl.zeros((REDUCTION_SIZE, ), tl.int32)''
                            else texpr env reduction_part)
      in if inside_reduction self
         then Inr (join '' + ''
                (offset_addr @ [''tl.reshape('' @ base_addr @ '', (BLOCK_SIZE, 1))'',
                                ''tl.reshape('' @ reduction_addr @ '', (1, REDUCTION_SIZE))'']))
         else if reduction_part = [] then Inr (join '' + '' (offset_addr @ [base_addr]))
         else Inl AssertionError)"
  by (simp add: indexing_def offset_of_def base_part_of_def reduction_part_of_def Let_def)

theorem indexing_parts_witness:
  "indexing demo_env (demo_kernel True) [([''i0'', ''s0''], 1), ([''i1''], 1), ([''r0''], 3), ([], 5)]
     = Inr ''5 + tl.reshape(i0*s0 + i1, (BLOCK_SIZE, 1)) + tl.reshape(3*r0, (1, REDUCTION_SIZE))''
   \<and> indexing demo_env (demo_kernel True) [([''i0''], 7)]
     = Inr ''tl.reshape(7*i0, (BLOCK_SIZE, 1)) + tl.reshape(tl.zeros((REDUCTION_SIZE, ), tl.int32), (1, REDUCTION_SIZE))''
   \<and> indexing demo_env (demo_kernel False) [([''i0'', ''s0''], 1), ([''i1''], 1), ([], 5)]
     = Inr ''5 + i0*s0 + i1''
   \<and> indexing demo_env (demo_kernel False) [([], 5)]
     = Inr ''5 + tl.zeros((BLOCK_SIZE, ), tl.int32)''"
  unfolding indexing_parts by (simp add: demo_eval)

text \<open>
  C3. Outside a reduction, \<open>indexing\<close> fails its assertion when the reduction part of
  the index is not zero, and returns an address when the reduction part is zero.
\<close>

theorem indexing_rejects_reduction_part:
  "\<not> inside_reduction self \<Longrightarrow>
     (reduction_part_of env self index \<noteq> [] \<longrightarrow> indexing env self index = Inl AssertionError)
     \<and> (reduction_part_of env self index = [] \<longrightarrow> (\<exists>addr. indexing env self index = Inr addr))"
  by (simp add: indexing_def offset_of_def reduction_part_of_def Let_def)

theorem indexing_rejects_reduction_part_witness:
  "\<not> inside_reduction (demo_kernel False)
   \<and> reduction_part_of demo_env (demo_kernel False) [([''i0''], 2), ([''r0''], 3)] = [([''r0''], 3)]
   \<and> indexing demo_env (demo_kernel False) [([''i0''], 2), ([''r0''], 3)] = Inl AssertionError
   \<and> reduction_part_of demo_env (demo_kernel False) [([''i0''], 2), ([], 3)] = []
   \<and> (\<exists>addr. indexing demo_env (demo_kernel False) [([''i0''], 2), ([], 3)] = Inr addr)"
proof -
  have nr: "\<not> inside_reduction (demo_kernel False)" by (simp add: demo_kernel_def)
  have r1: "reduction_part_of demo_env (demo_kernel False) [([''i0''], 2), ([''r0''], 3)] = [([''r0''], 3)]"
    by (simp add: demo_eval)
  have r2: "reduction_part_of demo_env (demo_kernel False) [([''i0''], 2), ([], 3)] = []"
    by (simp add: demo_eval)
  show ?thesis
    using nr r1 r2
      indexing_rejects_reduction_part [OF nr, of demo_env "[([''i0''], 2), ([''r0''], 3)]"]
      indexing_rejects_reduction_part [OF nr, of demo_env "[([''i0''], 2), ([], 3)]"]
    by simp
qed


subsection \<open>Masking\<close>

lemma cse_generate_cases:
  "cse_generate env cache buffer expr = (res, cache', buffer') \<Longrightarrow>
     map_of cache' expr = Some res
     \<and> (\<forall>k v. map_of cache k = Some v \<longrightarrow> map_of cache' k = Some v)
     \<and> (case map_of cache expr of
           Some v \<Rightarrow> cache' = cache \<and> buffer' = buffer
         | None \<Rightarrow> res = newvar env (length cache) \<and> buffer' = buffer @ [res @ '' = '' @ expr])"
  by (auto simp: cse_generate_def Let_def map_add_def split: option.splits)

lemma demo_store:
  "store demo_env ''buf0'' [([''i0''], 1)] ''tmp0'' (demo_kernel False)
     = (Inr (), (demo_kernel False)\<lparr>stores := [''tl.store(out_buf0 + i0, tmp0, mask=mask)'']\<rparr>)"
  by (simp add: store_def indexing_def mask_str_def demo_eval)

lemma demo_load:
  "load demo_env ''buf0'' [([''i0''], 1)] (demo_kernel False)
     = (Inr ''tmp0'', (demo_kernel False)\<lparr>loads := [''tmp0 = tl.load(in_buf0 + i0, mask=mask)''],
           cse_cache := [(''tl.load(in_buf0 + i0, mask=mask)'', ''tmp0'')]\<rparr>)"
  by (simp add: load_def cse_generate_def indexing_def mask_str_def demo_eval)

lemma load_exact:
  assumes "load env name index self = (Inr res, self')"
  shows "\<exists>addr. indexing env self index = Inr addr
           \<and> map_of (cse_cache self')
                (''tl.load('' @ args_input env name @ '' + '' @ addr @ '', ''
                   @ (if inside_reduction self then ''mask=mask_reduction'' else ''mask=mask'') @ '')'')
               = Some res
           \<and> loads self' =
               (if map_of (cse_cache self)
                     (''tl.load('' @ args_input env name @ '' + '' @ addr @ '', ''
                        @ (if inside_reduction self then ''mask=mask_reduction'' else ''mask=mask'') @ '')'')
                   = None
                then loads self @ [res @ '' = '' @ ''tl.load('' @ args_input env name @ '' + '' @ addr
                        @ '', '' @ (if inside_reduction self then ''mask=mask_reduction'' else ''mask=mask'') @ '')'']
                else loads self)"
proof -
  obtain addr where addr: "indexing env self index = Inr addr"
    using assms by (cases "indexing env self index") (auto simp: load_def Let_def)
  define line where
    "line = ''tl.load('' @ args_input env name @ '' + '' @ addr @ '', ''
       @ (if inside_reduction self then ''mask=mask_reduction'' else ''mask=mask'') @ '')''"
  have line: "''tl.load('' @ args_input env name @ '' + '' @ addr @ '', '' @ mask_str self True @ '')'' = line"
    by (simp add: line_def mask_str_def)
  obtain r c b where g: "cse_generate env (cse_cache self) (loads self) line = (r, c, b)"
    by (cases "cse_generate env (cse_cache self) (loads self) line") auto
  have eq: "load env name index self = (Inr r, self\<lparr>loads := b, cse_cache := c\<rparr>)"
    unfolding load_def Let_def addr sum.case line g by simp
  then have res: "res = r" and c: "cse_cache self' = c" and b: "loads self' = b"
    using assms by auto
  note f = cse_generate_cases [OF g]
  have "map_of (cse_cache self') line = Some res" using f res c by simp
  moreover have "loads self' =
      (if map_of (cse_cache self) line = None then loads self @ [res @ '' = '' @ line]
       else loads self)"
    using f res b by (auto split: option.splits)
  ultimately show ?thesis using addr unfolding line_def by blast
qed

lemma store_exact:
  assumes "store env name index val self = (Inr (), self')"
  shows "\<exists>addr. indexing env self index = Inr addr
           \<and> stores self' = stores self
                @ [''tl.store('' @ args_output env name @ '' + '' @ addr @ '', '' @ val @ '', ''
                     @ (if inside_reduction self then ''mask=mask_reduction'' else ''mask=mask'') @ '')'']"
proof -
  obtain addr where addr: "indexing env self index = Inr addr"
    using assms by (cases "indexing env self index") (auto simp: store_def Let_def)
  have "stores self' = stores self
                @ [''tl.store('' @ args_output env name @ '' + '' @ addr @ '', '' @ val @ '', ''
                     @ (if inside_reduction self then ''mask=mask_reduction'' else ''mask=mask'') @ '')'']"
    using assms addr by (auto simp: store_def Let_def mask_str_def)
  then show ?thesis using addr by blast
qed

lemma demo_store_reduction:
  "store demo_env ''buf0'' [([''i0''], 1), ([''r0''], 1)] ''tmp0'' (demo_kernel True)
     = (Inr (), (demo_kernel True)\<lparr>stores :=
          [''tl.store(out_buf0 + tl.reshape(i0, (BLOCK_SIZE, 1)) + tl.reshape(r0, (1, REDUCTION_SIZE)), tmp0, mask=mask_reduction)'']\<rparr>)"
  by (simp add: store_def indexing_def mask_str_def demo_eval)

lemma demo_load_reduction:
  "load demo_env ''buf0'' [([''i0''], 1), ([''r0''], 1)] (demo_kernel True)
     = (Inr ''tmp0'', (demo_kernel True)\<lparr>
          loads := [''tmp0 = tl.load(in_buf0 + tl.reshape(i0, (BLOCK_SIZE, 1)) + tl.reshape(r0, (1, REDUCTION_SIZE)), mask=mask_reduction)''],
          cse_cache := [(''tl.load(in_buf0 + tl.reshape(i0, (BLOCK_SIZE, 1)) + tl.reshape(r0, (1, REDUCTION_SIZE)), mask=mask_reduction)'', ''tmp0'')]\<rparr>)"
  by (simp add: load_def cse_generate_def indexing_def mask_str_def demo_eval)

text \<open>
  C4 (amended). Every load line and every store line that the kernel writes passes a
  mask variable as its last argument: \<open>mask=mask_reduction\<close> when the kernel is
  inside a reduction and \<open>mask=mask\<close> otherwise. This does not depend on need-mask,
  which is no input of the generator: \<open>NEED_MASK\<close> is a parameter of the written
  kernel, whose first lines bind \<open>mask\<close> (and, for a reduction kernel,
  \<open>mask_reduction\<close>) to the bounds test under \<open>if NEED_MASK:\<close> and to \<open>None\<close> under
  \<open>else:\<close>. A load whose text is already in the common-subexpression cache writes
  no line.
\<close>

theorem load_store_pass_mask:
  "(load env name index self = (Inr res, self') \<longrightarrow>
      (\<exists>addr. indexing env self index = Inr addr
           \<and> map_of (cse_cache self')
                (''tl.load('' @ args_input env name @ '' + '' @ addr @ '', ''
                   @ (if inside_reduction self then ''mask=mask_reduction'' else ''mask=mask'') @ '')'')
               = Some res
           \<and> loads self' =
               (if map_of (cse_cache self)
                     (''tl.load('' @ args_input env name @ '' + '' @ addr @ '', ''
                        @ (if inside_reduction self then ''mask=mask_reduction'' else ''mask=mask'') @ '')'')
                   = None
                then loads self @ [res @ '' = '' @ ''tl.load('' @ args_input env name @ '' + '' @ addr
                        @ '', '' @ (if inside_reduction self then ''mask=mask_reduction'' else ''mask=mask'') @ '')'']
                else loads self)))
   \<and> (store env name index val self = (Inr (), self') \<longrightarrow>
      (\<exists>addr. indexing env self index = Inr addr
           \<and> stores self' = stores self
                @ [''tl.store('' @ args_output env name @ '' + '' @ addr @ '', '' @ val @ '', ''
                     @ (if inside_reduction self then ''mask=mask_reduction'' else ''mask=mask'') @ '')'']))
   \<and> mask_str self True = (if inside_reduction self then ''mask=mask_reduction'' else ''mask=mask'')
   \<and> mask_prologue self =
       (if inside_reduction self
        then [''reduction0 = tl.arange(0, REDUCTION_SIZE)'',
              ''if NEED_MASK:'',
              ''    mask = indices0 < numel'',
              ''    mask_reduction = (tl.reshape(mask, (BLOCK_SIZE, 1)) &'',
              ''                      tl.reshape(reduction0 < reduction_numel, (1, REDUCTION_SIZE)))'',
              ''else:'',
              ''    mask = None'',
              ''    mask_reduction = None'']
        else [''if NEED_MASK:'',
              ''    mask = indices0 < numel'',
              ''else:'',
              ''    mask = None''])
   \<and> filter (\<lambda>line. line \<in> {''if NEED_MASK:'', ''    mask = indices0 < numel'',
                              ''else:'', ''    mask = None''}) (mask_prologue self)
       = [''if NEED_MASK:'', ''    mask = indices0 < numel'', ''else:'', ''    mask = None'']"
proof (intro conjI impI)
  assume "load env name index self = (Inr res, self')"
  then show "\<exists>addr. indexing env self index = Inr addr
           \<and> map_of (cse_cache self')
                (''tl.load('' @ args_input env name @ '' + '' @ addr @ '', ''
                   @ (if inside_reduction self then ''mask=mask_reduction'' else ''mask=mask'') @ '')'')
               = Some res
           \<and> loads self' =
               (if map_of (cse_cache self)
                     (''tl.load('' @ args_input env name @ '' + '' @ addr @ '', ''
                        @ (if inside_reduction self then ''mask=mask_reduction'' else ''mask=mask'') @ '')'')
                   = None
                then loads self @ [res @ '' = '' @ ''tl.load('' @ args_input env name @ '' + '' @ addr
                        @ '', '' @ (if inside_reduction self then ''mask=mask_reduction'' else ''mask=mask'') @ '')'']
                else loads self)"
    by (rule load_exact)
next
  assume "store env name index val self = (Inr (), self')"
  then show "\<exists>addr. indexing env self index = Inr addr
           \<and> stores self' = stores self
                @ [''tl.store('' @ args_output env name @ '' + '' @ addr @ '', '' @ val @ '', ''
                     @ (if inside_reduction self then ''mask=mask_reduction'' else ''mask=mask'') @ '')'']"
    by (rule store_exact)
next
  show "mask_str self True = (if inside_reduction self then ''mask=mask_reduction'' else ''mask=mask'')"
    by (simp add: mask_str_def)
next
  show "mask_prologue self =
       (if inside_reduction self
        then [''reduction0 = tl.arange(0, REDUCTION_SIZE)'',
              ''if NEED_MASK:'',
              ''    mask = indices0 < numel'',
              ''    mask_reduction = (tl.reshape(mask, (BLOCK_SIZE, 1)) &'',
              ''                      tl.reshape(reduction0 < reduction_numel, (1, REDUCTION_SIZE)))'',
              ''else:'',
              ''    mask = None'',
              ''    mask_reduction = None'']
        else [''if NEED_MASK:'',
              ''    mask = indices0 < numel'',
              ''else:'',
              ''    mask = None''])"
    by (simp add: mask_prologue_def)
next
  show "filter (\<lambda>line. line \<in> {''if NEED_MASK:'', ''    mask = indices0 < numel'',
                              ''else:'', ''    mask = None''}) (mask_prologue self)
       = [''if NEED_MASK:'', ''    mask = indices0 < numel'', ''else:'', ''    mask = None'']"
    by (simp add: mask_prologue_def)
qed

theorem load_store_pass_mask_witness:
  "load demo_env ''buf0'' [([''i0''], 1)] (demo_kernel False)
     = (Inr ''tmp0'', (demo_kernel False)\<lparr>loads := [''tmp0 = tl.load(in_buf0 + i0, mask=mask)''],
           cse_cache := [(''tl.load(in_buf0 + i0, mask=mask)'', ''tmp0'')]\<rparr>)
   \<and> store demo_env ''buf0'' [([''i0''], 1)] ''tmp0'' (demo_kernel False)
     = (Inr (), (demo_kernel False)\<lparr>stores := [''tl.store(out_buf0 + i0, tmp0, mask=mask)'']\<rparr>)
   \<and> load demo_env ''buf0'' [([''i0''], 1), ([''r0''], 1)] (demo_kernel True)
     = (Inr ''tmp0'', (demo_kernel True)\<lparr>
          loads := [''tmp0 = tl.load(in_buf0 + tl.reshape(i0, (BLOCK_SIZE, 1)) + tl.reshape(r0, (1, REDUCTION_SIZE)), mask=mask_reduction)''],
          cse_cache := [(''tl.load(in_buf0 + tl.reshape(i0, (BLOCK_SIZE, 1)) + tl.reshape(r0, (1, REDUCTION_SIZE)), mask=mask_reduction)'', ''tmp0'')]\<rparr>)
   \<and> store demo_env ''buf0'' [([''i0''], 1), ([''r0''], 1)] ''tmp0'' (demo_kernel True)
     = (Inr (), (demo_kernel True)\<lparr>stores :=
          [''tl.store(out_buf0 + tl.reshape(i0, (BLOCK_SIZE, 1)) + tl.reshape(r0, (1, REDUCTION_SIZE)), tmp0, mask=mask_reduction)'']\<rparr>)
   \<and> (\<exists>addr. indexing demo_env (demo_kernel False) [([''i0''], 1)] = Inr addr
         \<and> [''tl.store(out_buf0 + i0, tmp0, mask=mask)'']
             = [''tl.store(out_buf0 + '' @ addr @ '', tmp0, mask=mask)''])
   \<and> (\<exists>addr. indexing demo_env (demo_kernel True) [([''i0''], 1), ([''r0''], 1)] = Inr addr
         \<and> [''tl.store(out_buf0 + tl.reshape(i0, (BLOCK_SIZE, 1)) + tl.reshape(r0, (1, REDUCTION_SIZE)), tmp0, mask=mask_reduction)'']
             = [''tl.store(out_buf0 + '' @ addr @ '', tmp0, mask=mask_reduction)''])
   \<and> (\<exists>addr. indexing demo_env (demo_kernel True) [([''i0''], 1), ([''r0''], 1)] = Inr addr
         \<and> [''tmp0 = tl.load(in_buf0 + tl.reshape(i0, (BLOCK_SIZE, 1)) + tl.reshape(r0, (1, REDUCTION_SIZE)), mask=mask_reduction)'']
             = [''tmp0 = tl.load(in_buf0 + '' @ addr @ '', mask=mask_reduction)''])
   \<and> mask_str (demo_kernel True) True = ''mask=mask_reduction''
   \<and> mask_str (demo_kernel False) True = ''mask=mask''"
proof -
  note l0 = load_store_pass_mask [THEN conjunct1, rule_format, OF demo_load]
  note s0 = load_store_pass_mask [THEN conjunct2, THEN conjunct1, rule_format, OF demo_store]
  note l1 = load_store_pass_mask [THEN conjunct1, rule_format, OF demo_load_reduction]
  note s1 = load_store_pass_mask [THEN conjunct2, THEN conjunct1, rule_format, OF demo_store_reduction]
  note m1 = load_store_pass_mask [THEN conjunct2, THEN conjunct2, THEN conjunct1, of "demo_kernel True"]
  note m0 = load_store_pass_mask [THEN conjunct2, THEN conjunct2, THEN conjunct1, of "demo_kernel False"]
  have ir: "inside_reduction (demo_kernel True)" "\<not> inside_reduction (demo_kernel False)"
    by (simp_all add: demo_kernel_def)
  have env: "args_output demo_env ''buf0'' = ''out_buf0''" "args_input demo_env ''buf0'' = ''in_buf0''"
    by (simp_all add: demo_env_def)
  have c0: "cse_cache (demo_kernel True) = []" "loads (demo_kernel True) = []"
    "stores (demo_kernel True) = []" "stores (demo_kernel False) = []"
    by (simp_all add: demo_kernel_def)
  show ?thesis
    using l0 s0 l1 s1 m1 m0 demo_load demo_store demo_load_reduction demo_store_reduction
    by (simp add: ir env c0)
qed

text \<open>
  The claim C4 as stated fails in its first half: the kernel that holds the branch
  \<open>mask = None\<close> for a launch with \<open>NEED_MASK\<close> false has the store line
  \<open>tl.store(out_buf0 + i0, tmp0, mask=mask)\<close>, which refers to the mask variable.
\<close>

theorem store_line_mentions_mask_counterexample:
  "''    mask = None'' \<in> set (mask_prologue (demo_kernel False))
   \<and> stores (snd (store demo_env ''buf0'' [([''i0''], 1)] ''tmp0'' (demo_kernel False)))
       = [''tl.store(out_buf0 + i0, tmp0, mask=mask)'']
   \<and> mentions ''mask'' (''tl.store(out_buf0 + i0, tmp0, mask=mask)'')"
  by (simp add: demo_store) (simp add: mask_prologue_def demo_kernel_def)


subsection \<open>Reduction\<close>

lemma store_keeps:
  "store env name index val self = (out, self') \<Longrightarrow>
     cse_cache self' = cse_cache self \<and> compute self' = compute self"
  by (cases "indexing env self index") (auto simp: store_def Let_def)

lemma store_outside_reduction:
  "\<not> inside_reduction self \<Longrightarrow> store env name index val self = (Inr (), self') \<Longrightarrow>
     \<exists>addr. stores self' = stores self
        @ [''tl.store('' @ args_output env name @ '' + '' @ addr @ '', '' @ val @ '', mask=mask)'']"
  by (cases "indexing env self index") (auto simp: store_def mask_str_def Let_def)

lemma reduction_KeyError:
  "reduction_type \<notin> {''sum'', ''max'', ''min''} \<Longrightarrow>
     reduction env name dtype reduction_type index val self = (Inl KeyError, self)"
  by (simp add: reduction_def default_dict_def)

lemma default_dict_cases:
  "default_dict reduction_type = Some d \<longleftrightarrow>
     (reduction_type, d) \<in> {(''sum'', ''0''), (''max'', ''float('-inf')''), (''min'', ''float('inf')'')}"
  by (auto simp: default_dict_def)

lemma reduction_emits:
  assumes d: "default_dict reduction_type = Some d"
    and wh_def: "wh = ''tl.where(mask_reduction, '' @ val @ '', '' @ d @ '') if NEED_MASK else '' @ val"
    and self'_def: "self' = snd (reduction env name dtype reduction_type index val self)"
  shows "\<exists>res res'.
           map_of (cse_cache self') wh = Some res
         \<and> map_of (cse_cache self') (''tl.'' @ reduction_type @ ''('' @ res @ '', 1)'') = Some res'
         \<and> (map_of (cse_cache self) wh = None \<longrightarrow>
              take (Suc (length (compute self))) (compute self') = compute self @ [res @ '' = '' @ wh])
         \<and> (fst (reduction env name dtype reduction_type index val self) = Inr () \<longrightarrow>
              (\<exists>addr. stores self' = stores self
                 @ [''tl.store('' @ args_output env name @ '' + '' @ addr @ '', '' @ res' @ '', mask=mask)'']))"
proof -
  obtain r1 c1 b1 where g1: "cse_generate env (cse_cache self) (compute self) wh = (r1, c1, b1)"
    by (cases "cse_generate env (cse_cache self) (compute self) wh") auto
  define red where "red = ''tl.'' @ reduction_type @ ''('' @ r1 @ '', 1)''"
  obtain r2 c2 b2 where g2: "cse_generate env c1 b1 red = (r2, c2, b2)"
    by (cases "cse_generate env c1 b1 red") auto
  define k2 where "k2 = self\<lparr>compute := b2, cse_cache := c2\<rparr>"
  note f1 = cse_generate_cases [OF g1]
  note f2 = cse_generate_cases [OF g2]
  have c2_wh: "map_of c2 wh = Some r1" using f1 f2 by blast
  have c2_red: "map_of c2 red = Some r2" using f2 by blast
  have b2_first: "take (Suc (length (compute self))) b2 = compute self @ [r1 @ '' = '' @ wh]"
    if "map_of (cse_cache self) wh = None"
  proof -
    have b1: "b1 = compute self @ [r1 @ '' = '' @ wh]" using f1 that by simp
    have "b2 = b1 \<or> b2 = b1 @ [r2 @ '' = '' @ red]" using f2 by (auto split: option.splits)
    then show ?thesis using b1 by auto
  qed
  have red_eq: "reduction env name dtype reduction_type index val self =
      (if \<not> inside_reduction self then (Inl AssertionError, k2)
       else case ops_store env name index r2 (k2\<lparr>inside_reduction := False\<rparr>) of
              (Inl e, k) \<Rightarrow> (Inl e, k)
            | (Inr u, k) \<Rightarrow> (Inr (), k\<lparr>inside_reduction := True\<rparr>))"
    using d g1 g2 by (simp add: reduction_def wh_def red_def k2_def Let_def)
  obtain out k3 where st: "store env name index r2 (k2\<lparr>inside_reduction := False\<rparr>) = (out, k3)"
    by (cases "store env name index r2 (k2\<lparr>inside_reduction := False\<rparr>)") auto
  have keep: "cse_cache k3 = c2 \<and> compute k3 = b2"
    using store_keeps [OF st] by (simp add: k2_def)
  have cache: "cse_cache self' = c2" and comp: "compute self' = b2"
    using red_eq st keep
    by (auto simp: self'_def ops_store_def k2_def split: sum.splits)
  have stores_ok: "\<exists>addr. stores self' = stores self
         @ [''tl.store('' @ args_output env name @ '' + '' @ addr @ '', '' @ r2 @ '', mask=mask)'']"
    if ok: "fst (reduction env name dtype reduction_type index val self) = Inr ()"
  proof -
    have ir: "inside_reduction self" using ok red_eq by (auto split: if_splits)
    have out: "out = Inr ()" using ok red_eq st ir
      by (cases out) (auto simp: ops_store_def)
    have "\<exists>addr. stores k3 = stores (k2\<lparr>inside_reduction := False\<rparr>)
         @ [''tl.store('' @ args_output env name @ '' + '' @ addr @ '', '' @ r2 @ '', mask=mask)'']"
      using st out by (intro store_outside_reduction [of _ env name index r2]) simp_all
    moreover have "stores self' = stores k3"
      using red_eq st ir out by (simp add: self'_def ops_store_def)
    ultimately show ?thesis by (simp add: k2_def)
  qed
  show ?thesis
    unfolding cache comp
  proof (rule exI [of _ r1], rule exI [of _ r2], intro conjI impI)
    show "map_of c2 wh = Some r1" by (rule c2_wh)
    show "map_of c2 (''tl.'' @ reduction_type @ ''('' @ r1 @ '', 1)'') = Some r2"
      using c2_red by (simp only: red_def)
    show "take (Suc (length (compute self))) b2 = compute self @ [r1 @ '' = '' @ wh]"
      if "map_of (cse_cache self) wh = None" using that by (rule b2_first)
    show "\<exists>addr. stores self' = stores self
         @ [''tl.store('' @ args_output env name @ '' + '' @ addr @ '', '' @ r2 @ '', mask=mask)'']"
      if "fst (reduction env name dtype reduction_type index val self) = Inr ()"
      using that by (rule stores_ok)
  qed
qed

lemma demo_reduction:
  "reduction demo_env ''buf1'' ''float32'' ''max'' [([''i0''], 1)] ''tmp7'' (demo_kernel True)
     = (Inr (), (demo_kernel True)\<lparr>
          compute := [''tmp0 = tl.where(mask_reduction, tmp7, float('-inf')) if NEED_MASK else tmp7'',
                      ''tmp1 = tl.max(tmp0, 1)''],
          stores := [''tl.store(out_buf1 + i0, tmp1, mask=mask)''],
          cse_cache := [(''tl.where(mask_reduction, tmp7, float('-inf')) if NEED_MASK else tmp7'', ''tmp0''),
                        (''tl.max(tmp0, 1)'', ''tmp1'')]\<rparr>)"
  by (simp add: reduction_def default_dict_def ops_store_def store_def cse_generate_def indexing_def
       mask_str_def demo_eval)

text \<open>
  C5. For a reduction type other than \<open>sum\<close>, \<open>max\<close> and \<open>min\<close>, \<open>reduction\<close> fails
  with \<open>KeyError\<close> and leaves the kernel as it was: nothing is written. For \<open>sum\<close>,
  \<open>max\<close> and \<open>min\<close>, with the identity element 0, \<open>float('-inf')\<close> and
  \<open>float('inf')\<close>, the value with the identity substituted under \<open>mask_reduction\<close>
  is computed first (it is in the cache after the call, and its line is the first one
  written to the compute buffer unless it was cached), the reduction is applied to its
  result, and a successful call stores the reduced value with \<open>mask=mask\<close>.
\<close>

theorem reduction_identity_or_KeyError:
  "(reduction_type \<notin> {''sum'', ''max'', ''min''} \<longrightarrow>
      reduction env name dtype reduction_type index val self = (Inl KeyError, self))
   \<and> ((reduction_type, d) \<in> {(''sum'', ''0''), (''max'', ''float('-inf')''), (''min'', ''float('inf')'')} \<longrightarrow>
      (\<exists>res res'.
         map_of (cse_cache (snd (reduction env name dtype reduction_type index val self)))
           (''tl.where(mask_reduction, '' @ val @ '', '' @ d @ '') if NEED_MASK else '' @ val) = Some res
       \<and> map_of (cse_cache (snd (reduction env name dtype reduction_type index val self)))
           (''tl.'' @ reduction_type @ ''('' @ res @ '', 1)'') = Some res'
       \<and> (map_of (cse_cache self)
             (''tl.where(mask_reduction, '' @ val @ '', '' @ d @ '') if NEED_MASK else '' @ val) = None \<longrightarrow>
            take (Suc (length (compute self)))
                 (compute (snd (reduction env name dtype reduction_type index val self)))
              = compute self @ [res @ '' = '' @ ''tl.where(mask_reduction, '' @ val @ '', '' @ d
                                  @ '') if NEED_MASK else '' @ val])
       \<and> (fst (reduction env name dtype reduction_type index val self) = Inr () \<longrightarrow>
            (\<exists>addr. stores (snd (reduction env name dtype reduction_type index val self))
               = stores self @ [''tl.store('' @ args_output env name @ '' + '' @ addr @ '', ''
                                  @ res' @ '', mask=mask)'']))))"
proof (intro conjI impI)
  assume "reduction_type \<notin> {''sum'', ''max'', ''min''}"
  then show "reduction env name dtype reduction_type index val self = (Inl KeyError, self)"
    by (rule reduction_KeyError)
next
  assume "(reduction_type, d) \<in> {(''sum'', ''0''), (''max'', ''float('-inf')''), (''min'', ''float('inf')'')}"
  then have "default_dict reduction_type = Some d" by (simp only: default_dict_cases)
  then show "\<exists>res res'.
         map_of (cse_cache (snd (reduction env name dtype reduction_type index val self)))
           (''tl.where(mask_reduction, '' @ val @ '', '' @ d @ '') if NEED_MASK else '' @ val) = Some res
       \<and> map_of (cse_cache (snd (reduction env name dtype reduction_type index val self)))
           (''tl.'' @ reduction_type @ ''('' @ res @ '', 1)'') = Some res'
       \<and> (map_of (cse_cache self)
             (''tl.where(mask_reduction, '' @ val @ '', '' @ d @ '') if NEED_MASK else '' @ val) = None \<longrightarrow>
            take (Suc (length (compute self)))
                 (compute (snd (reduction env name dtype reduction_type index val self)))
              = compute self @ [res @ '' = '' @ ''tl.where(mask_reduction, '' @ val @ '', '' @ d
                                  @ '') if NEED_MASK else '' @ val])
       \<and> (fst (reduction env name dtype reduction_type index val self) = Inr () \<longrightarrow>
            (\<exists>addr. stores (snd (reduction env name dtype reduction_type index val self))
               = stores self @ [''tl.store('' @ args_output env name @ '' + '' @ addr @ '', ''
                                  @ res' @ '', mask=mask)'']))"
    by (intro reduction_emits) simp_all
qed

theorem reduction_identity_or_KeyError_witness:
  "''prod'' \<notin> {''sum'', ''max'', ''min''}
   \<and> reduction demo_env ''buf1'' ''float32'' ''prod'' [([''i0''], 1)] ''tmp7'' (demo_kernel True)
       = (Inl KeyError, demo_kernel True)
   \<and> (''max'', ''float('-inf')'') \<in> {(''sum'', ''0''), (''max'', ''float('-inf')''), (''min'', ''float('inf')'')}
   \<and> map_of (cse_cache (snd (reduction demo_env ''buf1'' ''float32'' ''max'' [([''i0''], 1)] ''tmp7'' (demo_kernel True))))
        ''tl.where(mask_reduction, tmp7, float('-inf')) if NEED_MASK else tmp7'' = Some ''tmp0''
   \<and> compute (snd (reduction demo_env ''buf1'' ''float32'' ''max'' [([''i0''], 1)] ''tmp7'' (demo_kernel True)))
       = [''tmp0 = tl.where(mask_reduction, tmp7, float('-inf')) if NEED_MASK else tmp7'',
          ''tmp1 = tl.max(tmp0, 1)'']"
proof -
  have no: "''prod'' \<notin> {''sum'', ''max'', ''min''}" by simp
  have yes: "(''max'', ''float('-inf')'') \<in> {(''sum'', ''0''), (''max'', ''float('-inf')''), (''min'', ''float('inf')'')}"
    by simp
  note bad = reduction_identity_or_KeyError [THEN conjunct1, rule_format, OF no,
      of demo_env "''buf1''" "''float32''" "[([''i0''], 1)]" "''tmp7''" "demo_kernel True"]
  note good = reduction_identity_or_KeyError [THEN conjunct2, rule_format, OF yes,
      of demo_env "''buf1''" "''float32''" "[([''i0''], 1)]" "''tmp7''" "demo_kernel True"]
  show ?thesis using no yes bad good by (simp add: demo_reduction)
qed


end
